theory Spec2Isabelle
  imports Main "HOL-Library.Word"
begin

section \<open>The emoji input field: data model\<close>

text \<open>
  The development embeds the event handlers of the component \<open>EmojiInput\<close>
  (\<open>packages/emoji-input/src/components/emoji-input/EmojiInput.tsx\<close>).

  A JavaScript string is a sequence of UTF-16 code units. The key names of a keyboard
  event and the type names of an input event are plain ASCII and stay HOL strings.
\<close>

type_synonym code_unit = "16 word"
type_synonym jsstring = "code_unit list"

definition newline :: code_unit where
  "newline = 10"

text \<open>The control character U+200C that \<open>handlePaste\<close> appends.\<close>

definition zeroWidthNonJoiner :: code_unit where
  "zeroWidthNonJoiner = 8204"

text \<open>The char code \<open>8203\<close> that \<open>handleKeyDown\<close> compares with.\<close>

definition markerCharCode :: int where
  "markerCharCode = 8203"

subsection \<open>Events\<close>

text \<open>
  An event object carries the two flags that \<open>preventDefault()\<close> and
  \<open>stopPropagation()\<close> set. The handlers mutate the event they are given; the
  model returns it.
\<close>

record event =
  defaultPrevented :: bool
  propagationStopped :: bool

record keyboard_event = event +
  key :: string

text \<open>\<open>nativeType\<close> and \<open>data\<close> are the fields of \<open>event.nativeEvent\<close>
  that \<open>handleBeforeInput\<close> reads; \<open>None\<close> is a \<open>null\<close> \<open>data\<close>.\<close>

record input_event = event +
  nativeType :: string
  data :: "jsstring option"

text \<open>\<open>clipboardText\<close> is \<open>event.clipboardData.getData('text/plain')\<close>.\<close>

record clipboard_event = event +
  clipboardText :: jsstring

text \<open>\<open>dataTransferText\<close> is \<open>event.dataTransfer?.getData('text')\<close>.\<close>

record drag_event = event +
  dataTransferText :: "jsstring option"

definition preventDefault :: "'a event_scheme \<Rightarrow> 'a event_scheme" where
  "preventDefault ev = ev\<lparr>defaultPrevented := True\<rparr>"

definition stopPropagation :: "'a event_scheme \<Rightarrow> 'a event_scheme" where
  "stopPropagation ev = ev\<lparr>propagationStopped := True\<rparr>"

text \<open>\<open>new Event('input', { bubbles: true })\<close>\<close>

definition newInputEvent :: event where
  "newInputEvent = \<lparr>defaultPrevented = False, propagationStopped = False\<rparr>"

subsection \<open>Effects on the collaborators\<close>

text \<open>
  Every call that leaves the component (to the selection utilities, to the document's
  editing commands, to the host's listeners) and every state setter is recorded in a
  trace, in the order of the calls.
\<close>

datatype command = ForwardDelete | InsertLineBreak | InsertHTML jsstring

datatype effect =
    SaveSelection bool
  | SetInnerHTML jsstring
  | RestoreSelection
  | InsertInvisibleCursorMarker
  | ExecCommand command
  | InsertTextAtCursorPosition jsstring bool
  | ReplaceText jsstring jsstring
  | DispatchInput
  | SetPlainTextValue jsstring
  | OnInput jsstring
  | OnKeyDown string
  | SetIsPopupVisible bool
  | OnPopupVisibilityChange bool

subsection \<open>The collaborators\<close>

text \<open>
  The utilities the component imports (\<open>utils/emoji\<close>, \<open>utils/insert\<close>,
  \<open>utils/selection\<close>, \<open>utils/text\<close>) and the browser's document are not part of
  the component. They are parameters: \<open>'d\<close> is the state of the editable element
  together with the document's selection, and each collaborator is a function on it.
  \<open>saveSelection\<close> takes the option \<open>shouldIgnoreEmptyTextNodes\<close>,
  \<open>insertTextAtCursorPosition\<close> the option \<open>shouldUseSavedSelection\<close>.
  \<open>getCharCodeThatWillBeDeleted\<close> reads the key of the event and the selection;
  \<open>None\<close> is a result that is no number.
\<close>

record 'd env =
  convertEmojisToUnicode :: "jsstring \<Rightarrow> jsstring"
  convertTextToHTML :: "jsstring \<Rightarrow> jsstring"
  convertHTMLToText :: "jsstring \<Rightarrow> jsstring"
  innerHTML :: "'d \<Rightarrow> jsstring"
  setInnerHTML :: "jsstring \<Rightarrow> 'd \<Rightarrow> 'd"
  saveSelection :: "bool \<Rightarrow> 'd \<Rightarrow> 'd"
  restoreSelection :: "'d \<Rightarrow> 'd"
  insertInvisibleCursorMarker :: "'d \<Rightarrow> 'd"
  execCommand :: "command \<Rightarrow> 'd \<Rightarrow> 'd"
  insertTextAtCursorPosition :: "jsstring \<Rightarrow> bool \<Rightarrow> 'd \<Rightarrow> 'd"
  replaceText :: "jsstring \<Rightarrow> jsstring \<Rightarrow> 'd \<Rightarrow> 'd"
  getCharCodeThatWillBeDeleted :: "string \<Rightarrow> 'd option \<Rightarrow> int option"

text \<open>The angle brackets, and the references \<open>&lt;\<close> and \<open>&gt;\<close>, as code units.\<close>

definition lessThanSign :: code_unit where
  "lessThanSign = 60"

definition greaterThanSign :: code_unit where
  "greaterThanSign = 62"

definition ltEntity :: jsstring where
  "ltEntity = [38, 108, 116, 59]"

definition gtEntity :: jsstring where
  "gtEntity = [38, 103, 116, 59]"

text \<open>
  Modelled from the spec: what \<open>escapeHTML\<close> makes of one code unit. The
  specification has the codec escape the characters that would be misread as
  structural markup, the angle brackets, and has the conversion to markup idempotent on
  its own output; so \<open><\<close> becomes \<open>&lt;\<close>, \<open>>\<close> becomes \<open>&gt;\<close>, and every
  other code unit, the ampersand too, is kept.
\<close>

definition escapeUnit :: "code_unit \<Rightarrow> jsstring" where
  "escapeUnit c =
     (if c = lessThanSign then ltEntity
      else if c = greaterThanSign then gtEntity
      else [c])"

text \<open>
  Modelled from the spec: \<open>escapeHTML\<close> of \<open>utils/emoji\<close>, which is not among the
  sources. It escapes every code unit of the text, in order.
\<close>

definition escapeHTML :: "jsstring \<Rightarrow> jsstring" where
  "escapeHTML text = concat (map escapeUnit text)"

subsection \<open>The component's state\<close>

text \<open>
  The properties \<open>isDisabled\<close>, \<open>onInput\<close> and \<open>onKeyDown\<close>, the state hooks
  \<open>plainTextValue\<close> and \<open>isPopupVisible\<close>, and the references \<open>editorRef\<close>,
  \<open>shouldDeleteOneMoreBackwards\<close> and \<open>shouldDeleteOneMoreForwards\<close>.
  \<open>editor\<close> is \<open>editorRef.current\<close>, \<open>None\<close> while it is \<open>null\<close>.
  \<open>hasOnInput\<close> is \<open>typeof onInput === 'function'\<close>. The host's \<open>onKeyDown\<close>
  listener is \<open>None\<close> when it is no function; otherwise it tells, for the event it
  receives, whether it calls \<open>preventDefault()\<close> and whether it calls
  \<open>stopPropagation()\<close>. A listener of the host is taken to leave the component
  alone otherwise: it does not call back into the component while it runs.
\<close>

record 'd state =
  isDisabled :: bool
  hasOnInput :: bool
  onKeyDown :: "(keyboard_event \<Rightarrow> bool \<times> bool) option"
  onPopupVisibilityChange :: bool
  plainTextValue :: jsstring
  isPopupVisible :: bool
  editor :: "'d option"
  shouldDeleteOneMoreBackwards :: bool
  shouldDeleteOneMoreForwards :: bool
  trace :: "effect list"

text \<open>
  The state of a freshly rendered component: \<open>useState(value)\<close>,
  \<open>useState(false)\<close>, \<open>useRef(null)\<close> and \<open>useRef(false)\<close> twice.
\<close>

definition initialState ::
  "bool \<Rightarrow> bool \<Rightarrow> (keyboard_event \<Rightarrow> bool \<times> bool) option \<Rightarrow> bool \<Rightarrow> jsstring \<Rightarrow> 'd state" where
  "initialState disabled hasInput keyDown popupChange val =
     \<lparr>isDisabled = disabled, hasOnInput = hasInput, onKeyDown = keyDown,
      onPopupVisibilityChange = popupChange,
      plainTextValue = val, isPopupVisible = False, editor = None,
      shouldDeleteOneMoreBackwards = False, shouldDeleteOneMoreForwards = False,
      trace = []\<rparr>"

definition emit :: "effect list \<Rightarrow> 'd state \<Rightarrow> 'd state" where
  "emit fx s = s\<lparr>trace := trace s @ fx\<rparr>"

section \<open>The handlers\<close>

definition handleUpdateHTML :: "'d env \<Rightarrow> jsstring \<Rightarrow> 'd state \<Rightarrow> 'd state" where
  "handleUpdateHTML E html s =
     (case editor s of
        None \<Rightarrow> s
      | Some d \<Rightarrow>
          (let newInnerHTML = convertTextToHTML E (convertEmojisToUnicode E html)
           in if newInnerHTML \<noteq> innerHTML E d
              then emit [SaveSelection True, SetInnerHTML newInnerHTML, RestoreSelection]
                     (s\<lparr>editor :=
                          Some (restoreSelection E
                                 (setInnerHTML E newInnerHTML (saveSelection E True d)))\<rparr>)
              else s))"

text \<open>
  \<open>handleInput\<close>. The second read of \<open>editorRef.current.innerHTML\<close> comes after
  \<open>handleUpdateHTML\<close>, which never clears the reference; the branch for a missing
  reference there is never taken (lemma \<open>handleUpdateHTML_editor\<close>).
\<close>

definition handleInput :: "'d env \<Rightarrow> 'd state \<Rightarrow> event \<Rightarrow> 'd state \<times> event" where
  "handleInput E s ev =
     (case editor s of
        None \<Rightarrow> (s, ev)
      | Some d \<Rightarrow>
          (let ev1 = (if isDisabled s then preventDefault (stopPropagation ev) else ev)
           in if shouldDeleteOneMoreBackwards s
              then (emit [InsertInvisibleCursorMarker]
                      (s\<lparr>shouldDeleteOneMoreBackwards := False,
                         shouldDeleteOneMoreForwards := False,
                         editor := Some (insertInvisibleCursorMarker E d)\<rparr>),
                    stopPropagation (preventDefault ev1))
              else if shouldDeleteOneMoreForwards s
              then (emit [ExecCommand ForwardDelete]
                      (s\<lparr>shouldDeleteOneMoreBackwards := False,
                         shouldDeleteOneMoreForwards := False,
                         editor := Some (execCommand E ForwardDelete d)\<rparr>),
                    stopPropagation (preventDefault ev1))
              else
                (let s1 = handleUpdateHTML E (innerHTML E d) s
                 in case editor s1 of
                      None \<Rightarrow> (s1, ev1)
                    | Some d1 \<Rightarrow>
                        (let text = convertHTMLToText E (innerHTML E d1);
                             s2 = emit [SetPlainTextValue text] (s1\<lparr>plainTextValue := text\<rparr>)
                         in (if hasOnInput s2 then emit [OnInput text] s2 else s2, ev1)))))"

text \<open>
  \<open>editorRef.current.dispatchEvent(newEvent)\<close>: the synthetic input event bubbles to
  the component's own \<open>onInput\<close> handler, which runs before \<open>dispatchEvent\<close>
  returns. Events that the browser itself may fire while it executes an editing command
  are no part of the handlers and are not modelled.
\<close>

definition dispatchInput :: "'d env \<Rightarrow> 'd state \<Rightarrow> 'd state" where
  "dispatchInput E s = fst (handleInput E (emit [DispatchInput] s) newInputEvent)"

definition handleBeforeInput ::
  "'d env \<Rightarrow> 'd state \<Rightarrow> input_event \<Rightarrow> 'd state \<times> input_event" where
  "handleBeforeInput E s ev =
     (case editor s of
        None \<Rightarrow> (s, ev)
      | Some d \<Rightarrow>
          if isDisabled s then (s, stopPropagation (preventDefault ev))
          else
            (case data ev of
               None \<Rightarrow> (s, ev)
             | Some t \<Rightarrow>
                 if nativeType ev = ''textInput'' \<and> t \<noteq> [] \<and> newline \<in> set t
                 then
                   (let text = convertEmojisToUnicode E t;
                        s1 = emit [InsertTextAtCursorPosition text False]
                               (s\<lparr>editor := Some (insertTextAtCursorPosition E text False d)\<rparr>)
                    in (dispatchInput E s1, stopPropagation (preventDefault ev)))
                 else (s, ev)))"

text \<open>The host's \<open>onKeyDown\<close> listener, applied to the event.\<close>

definition callOnKeyDown :: "'d state \<Rightarrow> keyboard_event \<Rightarrow> 'd state \<times> keyboard_event" where
  "callOnKeyDown s ev =
     (case onKeyDown s of
        None \<Rightarrow> (s, ev)
      | Some listener \<Rightarrow>
          (emit [OnKeyDown (key ev)] s,
           ev\<lparr>defaultPrevented := defaultPrevented ev \<or> fst (listener ev),
              propagationStopped := propagationStopped ev \<or> snd (listener ev)\<rparr>))"

text \<open>
  \<open>handleKeyDown\<close> runs, on an enabled field and unless the key is Enter with the
  popup open, three steps in a row: the host's listener, the line break on Enter
  (\<open>enterLineBreak\<close>), and the guard for the delete keys (\<open>deleteGuard\<close>).
\<close>

definition enterLineBreak ::
  "'d env \<Rightarrow> 'd state \<Rightarrow> keyboard_event \<Rightarrow> 'd state \<times> keyboard_event" where
  "enterLineBreak E s ev =
     (case editor s of
        Some d \<Rightarrow>
          if key ev = ''Enter'' \<and> \<not> propagationStopped ev
          then (emit [ExecCommand InsertLineBreak]
                  (s\<lparr>editor := Some (execCommand E InsertLineBreak d)\<rparr>),
                preventDefault ev)
          else (s, ev)
      | None \<Rightarrow> (s, ev))"

definition deleteGuard ::
  "'d env \<Rightarrow> 'd state \<Rightarrow> keyboard_event \<Rightarrow> 'd state \<times> keyboard_event" where
  "deleteGuard E s ev =
     (if key ev = ''Backspace'' \<or> key ev = ''Delete'' \<or> key ev = ''Unidentified''
      then
        if getCharCodeThatWillBeDeleted E (key ev) (editor s) = Some markerCharCode
        then
          if key ev = ''Backspace'' \<or> key ev = ''Unidentified''
          then (s\<lparr>shouldDeleteOneMoreBackwards := True\<rparr>, ev)
          else (s\<lparr>shouldDeleteOneMoreForwards := True\<rparr>, ev)
        else (s, ev)
      else (s, ev))"

definition handleKeyDown ::
  "'d env \<Rightarrow> 'd state \<Rightarrow> keyboard_event \<Rightarrow> 'd state \<times> keyboard_event" where
  "handleKeyDown E s ev =
     (if isDisabled s then (s, stopPropagation (preventDefault ev))
      else if key ev = ''Enter'' \<and> isPopupVisible s then (s, preventDefault ev)
      else
        (case callOnKeyDown s ev of
           (s1, ev1) \<Rightarrow>
             (case enterLineBreak E s1 ev1 of
                (s2, ev2) \<Rightarrow> deleteGuard E s2 ev2)))"

definition handlePopupVisibility :: "'d env \<Rightarrow> bool \<Rightarrow> 'd state \<Rightarrow> 'd state" where
  "handlePopupVisibility E isVisible s =
     (let s1 = emit [SetIsPopupVisible isVisible] (s\<lparr>isPopupVisible := isVisible\<rparr>);
          s2 = (case editor s1 of
                  Some d \<Rightarrow>
                    if isVisible
                    then emit [SaveSelection False] (s1\<lparr>editor := Some (saveSelection E False d)\<rparr>)
                    else s1
                | None \<Rightarrow> s1)
      in if onPopupVisibilityChange s2 then emit [OnPopupVisibilityChange isVisible] s2 else s2)"

definition handlePaste ::
  "'d env \<Rightarrow> 'd state \<Rightarrow> clipboard_event \<Rightarrow> 'd state \<times> clipboard_event" where
  "handlePaste E s ev =
     (case editor s of
        None \<Rightarrow> (s, ev)
      | Some d \<Rightarrow>
          (let ev1 = preventDefault ev
           in if isDisabled s then (s, stopPropagation ev1)
              else
                (let text0 = escapeHTML (convertEmojisToUnicode E (clipboardText ev));
                     text = (if newline \<in> set text0 then text0 @ [zeroWidthNonJoiner] else text0);
                     s1 = emit [ExecCommand (InsertHTML text)]
                            (s\<lparr>editor := Some (execCommand E (InsertHTML text) d)\<rparr>)
                 in (dispatchInput E s1, ev1))))"

definition handleDrop ::
  "'d env \<Rightarrow> 'd state \<Rightarrow> drag_event \<Rightarrow> 'd state \<times> drag_event" where
  "handleDrop E s ev =
     (case editor s of
        None \<Rightarrow> (s, ev)
      | Some d \<Rightarrow>
          (let ev1 = preventDefault ev
           in if isDisabled s then (s, stopPropagation ev1)
              else
                (case dataTransferText ev of
                   None \<Rightarrow> (s, ev1)
                 | Some t \<Rightarrow>
                     if t = [] then (s, ev1)
                     else
                       (let text = escapeHTML (convertEmojisToUnicode E t);
                            s1 = emit [ExecCommand (InsertHTML text)]
                                   (s\<lparr>editor := Some (execCommand E (InsertHTML text) d)\<rparr>)
                        in (dispatchInput E s1, ev1)))))"

definition handlePopupSelect :: "'d env \<Rightarrow> jsstring \<Rightarrow> 'd state \<Rightarrow> 'd state" where
  "handlePopupSelect E emoji s =
     (case editor s of
        None \<Rightarrow> s
      | Some d \<Rightarrow>
          dispatchInput E
            (emit [InsertTextAtCursorPosition emoji True]
               (s\<lparr>editor := Some (insertTextAtCursorPosition E emoji True d)\<rparr>)))"

definition handleInsertTextAtCursorPosition :: "'d env \<Rightarrow> jsstring \<Rightarrow> 'd state \<Rightarrow> 'd state" where
  "handleInsertTextAtCursorPosition E text s =
     (case editor s of
        None \<Rightarrow> s
      | Some d \<Rightarrow>
          dispatchInput E
            (emit [InsertTextAtCursorPosition text False]
               (s\<lparr>editor := Some (insertTextAtCursorPosition E text False d)\<rparr>)))"

definition handleReplaceText :: "'d env \<Rightarrow> jsstring \<Rightarrow> jsstring \<Rightarrow> 'd state \<Rightarrow> 'd state" where
  "handleReplaceText E searchText pasteText s =
     (case editor s of
        None \<Rightarrow> s
      | Some d \<Rightarrow>
          dispatchInput E
            (emit [ReplaceText searchText pasteText]
               (s\<lparr>editor := Some (replaceText E searchText pasteText d)\<rparr>)))"

section \<open>Reading the trace\<close>

text \<open>
  Three projections of a trace: the texts the host's \<open>onInput\<close> listener was called
  with, the markup handed to \<open>document.execCommand('insertHTML', ...)\<close>, and the
  number of synthetic input events dispatched.
\<close>

definition onInputCalls :: "effect list \<Rightarrow> jsstring list" where
  "onInputCalls fx = concat (map (\<lambda>e. case e of OnInput t \<Rightarrow> [t] | _ \<Rightarrow> []) fx)"

definition insertedHTML :: "effect list \<Rightarrow> jsstring list" where
  "insertedHTML fx =
     concat (map (\<lambda>e. case e of ExecCommand (InsertHTML t) \<Rightarrow> [t] | _ \<Rightarrow> []) fx)"

definition dispatches :: "effect list \<Rightarrow> nat" where
  "dispatches fx = length (filter (\<lambda>e. e = DispatchInput) fx)"

text \<open>
  What one run of \<open>handleUpdateHTML\<close> on the element \<open>d\<close> adds to the trace, and
  the element it leaves.
\<close>

definition updateEffects :: "'d env \<Rightarrow> jsstring \<Rightarrow> 'd \<Rightarrow> effect list" where
  "updateEffects E html d =
     (let newInnerHTML = convertTextToHTML E (convertEmojisToUnicode E html)
      in if newInnerHTML \<noteq> innerHTML E d
         then [SaveSelection True, SetInnerHTML newInnerHTML, RestoreSelection]
         else [])"

definition updatedSurface :: "'d env \<Rightarrow> jsstring \<Rightarrow> 'd \<Rightarrow> 'd" where
  "updatedSurface E html d =
     (let newInnerHTML = convertTextToHTML E (convertEmojisToUnicode E html)
      in if newInnerHTML \<noteq> innerHTML E d
         then restoreSelection E (setInnerHTML E newInnerHTML (saveSelection E True d))
         else d)"

text \<open>The text that \<open>handlePaste\<close> hands to \<open>insertHTML\<close> for a clipboard text.\<close>

definition pastedMarkup :: "'d env \<Rightarrow> jsstring \<Rightarrow> jsstring" where
  "pastedMarkup E clip =
     (let text = escapeHTML (convertEmojisToUnicode E clip)
      in if newline \<in> set text then text @ [zeroWidthNonJoiner] else text)"

definition deleteClassKey :: "string \<Rightarrow> bool" where
  "deleteClassKey k = (k = ''Backspace'' \<or> k = ''Delete'' \<or> k = ''Unidentified'')"




text \<open>
  Modelled from the spec: the conversion of markup back to plain text,
  \<open>convertHTMLToText\<close> of \<open>utils/text\<close>, which is not among the sources. The
  specification has it concatenate the contents of the text runs and put, for each
  inline emoji element, the emoji's unicode form. A tag, from \<open><\<close> to the next
  \<open>>\<close>, is structure and has no characters of its own; \<open>emojiOf\<close> gives the
  unicode form for the tag of an emoji element and nothing for any other tag. In a text
  run the references \<open>&lt;\<close> and \<open>&gt;\<close> stand for the angle brackets and every
  other code unit stands for itself.
\<close>

function markupText :: "(jsstring \<Rightarrow> jsstring) \<Rightarrow> jsstring \<Rightarrow> jsstring" where
  "markupText emojiOf [] = []"
| "markupText emojiOf (c # cs) =
     (if c = lessThanSign
      then emojiOf (takeWhile (\<lambda>x. x \<noteq> greaterThanSign) cs) @
           markupText emojiOf (drop 1 (dropWhile (\<lambda>x. x \<noteq> greaterThanSign) cs))
      else if take 4 (c # cs) = ltEntity then lessThanSign # markupText emojiOf (drop 3 cs)
      else if take 4 (c # cs) = gtEntity then greaterThanSign # markupText emojiOf (drop 3 cs)
      else c # markupText emojiOf cs)"
  by pat_completeness auto
termination
  by (relation "measure (\<lambda>(emojiOf, h). length h)")
     (auto intro!: le_imp_less_Suc le_trans [OF diff_le_self length_dropWhile_le])

subsection \<open>A sample surface\<close>

text \<open>
  A concrete set of collaborators, on which the handlers can be run: the element holds
  the code units before and after a caret, the conversions are the identity,
  \<open>insertHTML\<close> and \<open>insertTextAtCursorPosition\<close> insert at the caret,
  \<open>forwardDelete\<close> removes the unit after it, and the unit about to be deleted is
  the one after the caret for the key \<open>Delete\<close> and the one before it otherwise.
\<close>

definition caretSurface :: "(jsstring \<times> jsstring) env" where
  "caretSurface =
     \<lparr>convertEmojisToUnicode = (\<lambda>t. t),
      convertTextToHTML = (\<lambda>t. t),
      convertHTMLToText = (\<lambda>h. h),
      innerHTML = (\<lambda>(b, a). b @ a),
      setInnerHTML = (\<lambda>h (b, a). (h, [])),
      saveSelection = (\<lambda>ignoreEmpty d. d),
      restoreSelection = (\<lambda>d. d),
      insertInvisibleCursorMarker = (\<lambda>d. d),
      execCommand = (\<lambda>c (b, a). case c of
                        ForwardDelete \<Rightarrow> (b, tl a)
                      | InsertLineBreak \<Rightarrow> (b @ [newline], a)
                      | InsertHTML t \<Rightarrow> (b @ t, a)),
      insertTextAtCursorPosition = (\<lambda>t useSaved (b, a). (b @ t, a)),
      replaceText = (\<lambda>search paste d. d),
      getCharCodeThatWillBeDeleted = (\<lambda>k d. case d of
                        None \<Rightarrow> None
                      | Some (b, a) \<Rightarrow>
                          if k = ''Delete''
                          then (case a of [] \<Rightarrow> None | c # cs \<Rightarrow> Some (uint c))
                          else (if b = [] then None else Some (uint (last b))))\<rparr>"

text \<open>The component once React has attached the element to \<open>editorRef\<close>.\<close>

definition mounted :: "'d \<Rightarrow> 'd state \<Rightarrow> 'd state" where
  "mounted d s = s\<lparr>editor := Some d\<rparr>"

definition keyDown :: "string \<Rightarrow> keyboard_event" where
  "keyDown k = \<lparr>defaultPrevented = False, propagationStopped = False, key = k\<rparr>"

definition pasteOf :: "jsstring \<Rightarrow> clipboard_event" where
  "pasteOf t = \<lparr>defaultPrevented = False, propagationStopped = False, clipboardText = t\<rparr>"

definition beforeInputOf :: "string \<Rightarrow> jsstring option \<Rightarrow> input_event" where
  "beforeInputOf ty t =
     \<lparr>defaultPrevented = False, propagationStopped = False, nativeType = ty, data = t\<rparr>"


text \<open>
  Modelled from the spec: the editable surface together with the codec of the
  specification. The element holds its markup, split at the caret, as the sample
  surface does: \<open>insertHTML\<close> puts markup at the caret and \<open>innerHTML\<close> gives the
  markup back. The plain text is read from the markup by \<open>markupText\<close>. The emoji
  conversion \<open>conv\<close> and the conversion of text to markup \<open>toHTML\<close> stay
  parameters.
\<close>

definition codecSurface ::
  "(jsstring \<Rightarrow> jsstring) \<Rightarrow> (jsstring \<Rightarrow> jsstring) \<Rightarrow> (jsstring \<Rightarrow> jsstring) \<Rightarrow>
   (jsstring \<times> jsstring) env" where
  "codecSurface conv toHTML emojiOf =
     caretSurface\<lparr>convertEmojisToUnicode := conv,
                  convertTextToHTML := toHTML,
                  convertHTMLToText := markupText emojiOf\<rparr>"



section \<open>Properties of the steps\<close>

lemma emit_fields [simp]:
  "editor (emit fx s) = editor s"
  "isDisabled (emit fx s) = isDisabled s"
  "hasOnInput (emit fx s) = hasOnInput s"
  "plainTextValue (emit fx s) = plainTextValue s"
  "shouldDeleteOneMoreBackwards (emit fx s) = shouldDeleteOneMoreBackwards s"
  "shouldDeleteOneMoreForwards (emit fx s) = shouldDeleteOneMoreForwards s"
  "trace (emit fx s) = trace s @ fx"
  by (simp_all add: emit_def)

lemma onInputCalls_append [simp]: "onInputCalls (xs @ ys) = onInputCalls xs @ onInputCalls ys"
  by (simp add: onInputCalls_def)

lemma insertedHTML_append [simp]: "insertedHTML (xs @ ys) = insertedHTML xs @ insertedHTML ys"
  by (simp add: insertedHTML_def)

lemma dispatches_append [simp]: "dispatches (xs @ ys) = dispatches xs + dispatches ys"
  by (simp add: dispatches_def)

lemma dispatches_simps [simp]:
  "dispatches [] = 0"
  "dispatches (e # fx) = (if e = DispatchInput then 1 else 0) + dispatches fx"
  by (simp_all add: dispatches_def)

lemma onInputCalls_simps [simp]:
  "onInputCalls [] = []"
  "onInputCalls (e # fx) = (case e of OnInput t \<Rightarrow> [t] | _ \<Rightarrow> []) @ onInputCalls fx"
  by (simp_all add: onInputCalls_def)

lemma insertedHTML_simps [simp]:
  "insertedHTML [] = []"
  "insertedHTML (e # fx) =
     (case e of ExecCommand (InsertHTML t) \<Rightarrow> [t] | _ \<Rightarrow> []) @ insertedHTML fx"
  by (simp_all add: insertedHTML_def)

lemma updateEffects_projections [simp]:
  "dispatches (updateEffects E html d) = 0"
  "insertedHTML (updateEffects E html d) = []"
  "onInputCalls (updateEffects E html d) = []"
  by (simp_all add: updateEffects_def Let_def)

subsection \<open>The display sync\<close>

lemma handleUpdateHTML_editor:
  "editor s = Some d \<Longrightarrow> \<exists>d'. editor (handleUpdateHTML E html s) = Some d'"
  by (simp add: handleUpdateHTML_def emit_def Let_def)

lemma handleUpdateHTML_same:
  assumes "editor s = Some d"
      and "convertTextToHTML E (convertEmojisToUnicode E t) = innerHTML E d"
  shows "handleUpdateHTML E t s = s"
  using assms by (simp add: handleUpdateHTML_def)

lemma handleUpdateHTML_differs:
  assumes "editor s = Some d"
      and "convertTextToHTML E (convertEmojisToUnicode E t) \<noteq> innerHTML E d"
  shows "handleUpdateHTML E t s =
           s\<lparr>editor := Some (restoreSelection E
                              (setInnerHTML E (convertTextToHTML E (convertEmojisToUnicode E t))
                                 (saveSelection E True d))),
             trace := trace s @ [SaveSelection True,
                                 SetInnerHTML (convertTextToHTML E (convertEmojisToUnicode E t)),
                                 RestoreSelection]\<rparr>"
  using assms by (simp add: handleUpdateHTML_def emit_def Let_def)

lemma handleUpdateHTML_present:
  assumes "editor s = Some d"
  shows "handleUpdateHTML E html s =
           s\<lparr>editor := Some (updatedSurface E html d),
             trace := trace s @ updateEffects E html d\<rparr>"
  using assms
  by (simp add: handleUpdateHTML_def updatedSurface_def updateEffects_def emit_def Let_def)

subsection \<open>The input handler\<close>

lemma handleInput_backward:
  assumes "editor s = Some d" "shouldDeleteOneMoreBackwards s"
  shows "fst (handleInput E s ev) =
           s\<lparr>shouldDeleteOneMoreBackwards := False, shouldDeleteOneMoreForwards := False,
             editor := Some (insertInvisibleCursorMarker E d),
             trace := trace s @ [InsertInvisibleCursorMarker]\<rparr>"
  using assms by (simp add: handleInput_def emit_def Let_def)

lemma handleInput_forward:
  assumes "editor s = Some d" "\<not> shouldDeleteOneMoreBackwards s" "shouldDeleteOneMoreForwards s"
  shows "fst (handleInput E s ev) =
           s\<lparr>shouldDeleteOneMoreBackwards := False, shouldDeleteOneMoreForwards := False,
             editor := Some (execCommand E ForwardDelete d),
             trace := trace s @ [ExecCommand ForwardDelete]\<rparr>"
  using assms by (simp add: handleInput_def emit_def Let_def)

lemma handleInput_pending_event:
  assumes "editor s = Some d" "shouldDeleteOneMoreBackwards s \<or> shouldDeleteOneMoreForwards s"
  shows "defaultPrevented (snd (handleInput E s ev)) \<and> propagationStopped (snd (handleInput E s ev))"
  using assms by (auto simp add: handleInput_def Let_def preventDefault_def stopPropagation_def)

lemma handleInput_plain:
  assumes "editor s = Some d" "\<not> shouldDeleteOneMoreBackwards s" "\<not> shouldDeleteOneMoreForwards s"
  shows "fst (handleInput E s ev) =
           s\<lparr>editor := Some (updatedSurface E (innerHTML E d) d),
             plainTextValue := convertHTMLToText E (innerHTML E (updatedSurface E (innerHTML E d) d)),
             trace := trace s @ updateEffects E (innerHTML E d) d @
                      [SetPlainTextValue
                         (convertHTMLToText E (innerHTML E (updatedSurface E (innerHTML E d) d)))] @
                      (if hasOnInput s
                       then [OnInput (convertHTMLToText E
                                        (innerHTML E (updatedSurface E (innerHTML E d) d)))]
                       else [])\<rparr>"
  using assms
  by (simp add: handleInput_def handleUpdateHTML_present [OF assms(1)] emit_def Let_def)

lemma handleInput_plain_event:
  assumes "editor s = Some d" "\<not> shouldDeleteOneMoreBackwards s" "\<not> shouldDeleteOneMoreForwards s"
  shows "snd (handleInput E s ev) =
           (if isDisabled s then preventDefault (stopPropagation ev) else ev)"
  using assms
  by (simp add: handleInput_def handleUpdateHTML_present [OF assms(1)] emit_def Let_def)


lemma handleInput_insertedHTML:
  "insertedHTML (trace (fst (handleInput E s ev))) = insertedHTML (trace s)"
proof (cases "editor s")
  case None
  then show ?thesis by (simp add: handleInput_def)
next
  case (Some d)
  show ?thesis
  proof (cases "shouldDeleteOneMoreBackwards s")
    case True
    then show ?thesis by (simp add: handleInput_backward [OF Some])
  next
    case nb: False
    show ?thesis
    proof (cases "shouldDeleteOneMoreForwards s")
      case True
      then show ?thesis by (simp add: handleInput_forward [OF Some nb])
    next
      case False
      then show ?thesis by (simp add: handleInput_plain [OF Some nb])
    qed
  qed
qed




subsection \<open>Dispatching the synthetic input event\<close>


lemma dispatchInput_insertedHTML:
  "insertedHTML (trace (dispatchInput E s)) = insertedHTML (trace s)"
  by (simp add: dispatchInput_def handleInput_insertedHTML)






lemma handlePaste_enabled:
  "editor s = Some d \<Longrightarrow> \<not> isDisabled s \<Longrightarrow>
   fst (handlePaste E s ev) =
     dispatchInput E (emit [ExecCommand (InsertHTML (pastedMarkup E (clipboardText ev)))]
                        (s\<lparr>editor := Some (execCommand E
                                (InsertHTML (pastedMarkup E (clipboardText ev))) d)\<rparr>))"
  by (simp add: handlePaste_def pastedMarkup_def Let_def)

subsection \<open>The key handler\<close>

lemma callOnKeyDown_key [simp]: "key (snd (callOnKeyDown s ev)) = key ev"
  by (simp add: callOnKeyDown_def split: option.splits)

lemma callOnKeyDown_fields [simp]:
  "editor (fst (callOnKeyDown s ev)) = editor s"
  "isDisabled (fst (callOnKeyDown s ev)) = isDisabled s"
  "shouldDeleteOneMoreBackwards (fst (callOnKeyDown s ev)) = shouldDeleteOneMoreBackwards s"
  "shouldDeleteOneMoreForwards (fst (callOnKeyDown s ev)) = shouldDeleteOneMoreForwards s"
  by (simp_all add: callOnKeyDown_def emit_def split: option.splits)

lemma enterLineBreak_other: "key ev \<noteq> ''Enter'' \<Longrightarrow> enterLineBreak E s ev = (s, ev)"
  by (simp add: enterLineBreak_def split: option.split)

lemma enterLineBreak_enter:
  assumes "editor s = Some d" "key ev = ''Enter''" "\<not> propagationStopped ev"
  shows "enterLineBreak E s ev =
           (s\<lparr>editor := Some (execCommand E InsertLineBreak d),
              trace := trace s @ [ExecCommand InsertLineBreak]\<rparr>,
            preventDefault ev)"
  using assms by (simp add: enterLineBreak_def emit_def)

lemma enterLineBreak_flags [simp]:
  "shouldDeleteOneMoreBackwards (fst (enterLineBreak E s ev)) = shouldDeleteOneMoreBackwards s"
  "shouldDeleteOneMoreForwards (fst (enterLineBreak E s ev)) = shouldDeleteOneMoreForwards s"
  by (simp_all add: enterLineBreak_def emit_def split: option.split)

lemma deleteGuard_event: "snd (deleteGuard E s ev) = ev"
  by (simp add: deleteGuard_def)

lemma deleteGuard_enter: "key ev = ''Enter'' \<Longrightarrow> deleteGuard E s ev = (s, ev)"
  by (simp add: deleteGuard_def)

lemma deleteGuard_backward:
  assumes "key ev = ''Backspace'' \<or> key ev = ''Unidentified''"
      and "getCharCodeThatWillBeDeleted E (key ev) (editor s) = Some markerCharCode"
  shows "fst (deleteGuard E s ev) = s\<lparr>shouldDeleteOneMoreBackwards := True\<rparr>"
  using assms by (auto simp add: deleteGuard_def)

lemma deleteGuard_forward:
  assumes "key ev = ''Delete''"
      and "getCharCodeThatWillBeDeleted E (key ev) (editor s) = Some markerCharCode"
  shows "fst (deleteGuard E s ev) = s\<lparr>shouldDeleteOneMoreForwards := True\<rparr>"
  using assms by (simp add: deleteGuard_def)

lemma deleteGuard_unchanged:
  assumes "\<not> deleteClassKey (key ev) \<or>
           getCharCodeThatWillBeDeleted E (key ev) (editor s) \<noteq> Some markerCharCode"
  shows "fst (deleteGuard E s ev) = s"
  using assms by (auto simp add: deleteGuard_def deleteClassKey_def)

lemma handleKeyDown_disabled:
  "isDisabled s \<Longrightarrow> handleKeyDown E s ev = (s, stopPropagation (preventDefault ev))"
  by (simp add: handleKeyDown_def)

lemma handleKeyDown_popup_enter:
  "\<not> isDisabled s \<Longrightarrow> key ev = ''Enter'' \<Longrightarrow> isPopupVisible s \<Longrightarrow>
   handleKeyDown E s ev = (s, preventDefault ev)"
  by (simp add: handleKeyDown_def)

lemma handleKeyDown_enabled_other:
  assumes "\<not> isDisabled s" "key ev \<noteq> ''Enter''"
  shows "handleKeyDown E s ev =
           deleteGuard E (fst (callOnKeyDown s ev)) (snd (callOnKeyDown s ev))"
proof -
  obtain s1 ev1 where c: "callOnKeyDown s ev = (s1, ev1)"
    by (cases "callOnKeyDown s ev")
  have k: "key ev1 \<noteq> ''Enter''"
    using callOnKeyDown_key [of s ev] c assms(2) by simp
  show ?thesis
    using assms by (simp add: handleKeyDown_def c enterLineBreak_other [OF k])
qed

lemma handleKeyDown_enter:
  assumes "\<not> isDisabled s" "key ev = ''Enter''" "\<not> isPopupVisible s"
  shows "handleKeyDown E s ev =
           enterLineBreak E (fst (callOnKeyDown s ev)) (snd (callOnKeyDown s ev))"
proof -
  obtain s1 ev1 where c: "callOnKeyDown s ev = (s1, ev1)"
    by (cases "callOnKeyDown s ev")
  obtain s2 ev2 where l: "enterLineBreak E s1 ev1 = (s2, ev2)"
    by (cases "enterLineBreak E s1 ev1")
  have "key ev1 = ''Enter''"
    using callOnKeyDown_key [of s ev] c assms(2) by simp
  then have "key ev2 = ''Enter''"
    using l by (auto simp add: enterLineBreak_def preventDefault_def split: option.splits if_splits)
  then show ?thesis
    using assms by (simp add: handleKeyDown_def c l deleteGuard_enter)
qed

lemma handleKeyDown_flags_unchanged:
  assumes "isDisabled s \<or> \<not> deleteClassKey (key ev) \<or>
           getCharCodeThatWillBeDeleted E (key ev) (editor s) \<noteq> Some markerCharCode"
  shows "shouldDeleteOneMoreBackwards (fst (handleKeyDown E s ev)) = shouldDeleteOneMoreBackwards s \<and>
         shouldDeleteOneMoreForwards (fst (handleKeyDown E s ev)) = shouldDeleteOneMoreForwards s"
proof (cases "isDisabled s")
  case True
  then show ?thesis by (simp add: handleKeyDown_disabled)
next
  case en: False
  show ?thesis
  proof (cases "key ev = ''Enter''")
    case enter: True
    show ?thesis
    proof (cases "isPopupVisible s")
      case True
      with en enter show ?thesis by (simp add: handleKeyDown_popup_enter)
    next
      case False
      with en enter show ?thesis by (simp add: handleKeyDown_enter)
    qed
  next
    case False
    have h: "handleKeyDown E s ev =
               deleteGuard E (fst (callOnKeyDown s ev)) (snd (callOnKeyDown s ev))"
      using en False by (simp add: handleKeyDown_enabled_other)
    have "fst (deleteGuard E (fst (callOnKeyDown s ev)) (snd (callOnKeyDown s ev))) =
          fst (callOnKeyDown s ev)"
      using assms en by (intro deleteGuard_unchanged) simp
    then show ?thesis by (simp add: h)
  qed
qed

subsection \<open>Escaping\<close>

lemma newline_escapeUnit: "newline \<in> set (escapeUnit c) \<longleftrightarrow> c = newline"
  by (simp add: escapeUnit_def ltEntity_def gtEntity_def lessThanSign_def greaterThanSign_def
      newline_def)

lemma newline_escapeHTML: "newline \<in> set (escapeHTML t) \<longleftrightarrow> newline \<in> set t"
  by (auto simp add: escapeHTML_def newline_escapeUnit)















subsection \<open>Reading markup\<close>








lemma codecSurface_fields [simp]:
  "convertEmojisToUnicode (codecSurface conv toHTML emojiOf) = conv"
  "convertTextToHTML (codecSurface conv toHTML emojiOf) = toHTML"
  "convertHTMLToText (codecSurface conv toHTML emojiOf) = markupText emojiOf"
  "innerHTML (codecSurface conv toHTML emojiOf) (b, a) = b @ a"
  "setInnerHTML (codecSurface conv toHTML emojiOf) h (b, a) = (h, [])"
  "saveSelection (codecSurface conv toHTML emojiOf) ignoreEmpty d = d"
  "restoreSelection (codecSurface conv toHTML emojiOf) d = d"
  "execCommand (codecSurface conv toHTML emojiOf) (InsertHTML m) (b, a) = (b @ m, a)"
  by (simp_all add: codecSurface_def caretSurface_def)



section \<open>The delete guard\<close>

text \<open>
  Claim C1, as stated, has every keydown of Backspace, Delete or Unidentified whose
  doomed code unit is 8203 set the pending flag and leave the native operation alone.
  The handler first checks \<open>isDisabled\<close>: on a disabled field it prevents the
  default action, stops the propagation and returns before the guard, so no flag is
  set. The statement below is the claim for an enabled field.

  Claim C1 (amended): on an enabled field, for a keydown whose key is Backspace or
  Unidentified and whose doomed code unit is 8203, \<open>shouldDeleteOneMoreBackwards\<close>
  becomes true and \<open>shouldDeleteOneMoreForwards\<close> keeps its value; for the key Delete
  it is the other way round; in both cases the event leaves the handler as the host's
  listener left it, so the handler itself does not prevent the native operation. For
  any other key, for any other code unit, and on a disabled field, neither flag
  changes. Both flags are false in the initial state.
\<close>

theorem delete_guard_sets_pending_flag:
  "(\<not> isDisabled s \<and> (key ev = ''Backspace'' \<or> key ev = ''Unidentified'') \<and>
      getCharCodeThatWillBeDeleted E (key ev) (editor s) = Some markerCharCode \<longrightarrow>
        shouldDeleteOneMoreBackwards (fst (handleKeyDown E s ev)) \<and>
        shouldDeleteOneMoreForwards (fst (handleKeyDown E s ev)) = shouldDeleteOneMoreForwards s \<and>
        snd (handleKeyDown E s ev) = snd (callOnKeyDown s ev)) \<and>
   (\<not> isDisabled s \<and> key ev = ''Delete'' \<and>
      getCharCodeThatWillBeDeleted E (key ev) (editor s) = Some markerCharCode \<longrightarrow>
        shouldDeleteOneMoreForwards (fst (handleKeyDown E s ev)) \<and>
        shouldDeleteOneMoreBackwards (fst (handleKeyDown E s ev)) = shouldDeleteOneMoreBackwards s \<and>
        snd (handleKeyDown E s ev) = snd (callOnKeyDown s ev)) \<and>
   (isDisabled s \<or> \<not> deleteClassKey (key ev) \<or>
      getCharCodeThatWillBeDeleted E (key ev) (editor s) \<noteq> Some markerCharCode \<longrightarrow>
        shouldDeleteOneMoreBackwards (fst (handleKeyDown E s ev)) = shouldDeleteOneMoreBackwards s \<and>
        shouldDeleteOneMoreForwards (fst (handleKeyDown E s ev)) = shouldDeleteOneMoreForwards s) \<and>
   \<not> shouldDeleteOneMoreBackwards (initialState disabled hasInput keyDownListener popupChange val) \<and>
   \<not> shouldDeleteOneMoreForwards (initialState disabled hasInput keyDownListener popupChange val)"
proof (intro conjI impI)
  assume a: "\<not> isDisabled s \<and> (key ev = ''Backspace'' \<or> key ev = ''Unidentified'') \<and>
      getCharCodeThatWillBeDeleted E (key ev) (editor s) = Some markerCharCode"
  then have ne: "key ev \<noteq> ''Enter''" by auto
  have h: "handleKeyDown E s ev =
             deleteGuard E (fst (callOnKeyDown s ev)) (snd (callOnKeyDown s ev))"
    using a ne by (simp add: handleKeyDown_enabled_other)
  have g: "fst (deleteGuard E (fst (callOnKeyDown s ev)) (snd (callOnKeyDown s ev))) =
           (fst (callOnKeyDown s ev))\<lparr>shouldDeleteOneMoreBackwards := True\<rparr>"
    using a by (intro deleteGuard_backward) auto
  show "shouldDeleteOneMoreBackwards (fst (handleKeyDown E s ev))"
    by (simp add: h g)
  show "shouldDeleteOneMoreForwards (fst (handleKeyDown E s ev)) = shouldDeleteOneMoreForwards s"
    by (simp add: h g)
  show "snd (handleKeyDown E s ev) = snd (callOnKeyDown s ev)"
    by (simp add: h deleteGuard_event)
next
  assume a: "\<not> isDisabled s \<and> key ev = ''Delete'' \<and>
      getCharCodeThatWillBeDeleted E (key ev) (editor s) = Some markerCharCode"
  then have ne: "key ev \<noteq> ''Enter''" by auto
  have h: "handleKeyDown E s ev =
             deleteGuard E (fst (callOnKeyDown s ev)) (snd (callOnKeyDown s ev))"
    using a ne by (simp add: handleKeyDown_enabled_other)
  have g: "fst (deleteGuard E (fst (callOnKeyDown s ev)) (snd (callOnKeyDown s ev))) =
           (fst (callOnKeyDown s ev))\<lparr>shouldDeleteOneMoreForwards := True\<rparr>"
    using a by (intro deleteGuard_forward) auto
  show "shouldDeleteOneMoreForwards (fst (handleKeyDown E s ev))"
    by (simp add: h g)
  show "shouldDeleteOneMoreBackwards (fst (handleKeyDown E s ev)) = shouldDeleteOneMoreBackwards s"
    by (simp add: h g)
  show "snd (handleKeyDown E s ev) = snd (callOnKeyDown s ev)"
    by (simp add: h deleteGuard_event)
next
  assume a: "isDisabled s \<or> \<not> deleteClassKey (key ev) \<or>
      getCharCodeThatWillBeDeleted E (key ev) (editor s) \<noteq> Some markerCharCode"
  show "shouldDeleteOneMoreBackwards (fst (handleKeyDown E s ev)) = shouldDeleteOneMoreBackwards s"
    using handleKeyDown_flags_unchanged [OF a] by simp
  show "shouldDeleteOneMoreForwards (fst (handleKeyDown E s ev)) = shouldDeleteOneMoreForwards s"
    using handleKeyDown_flags_unchanged [OF a] by simp
next
  show "\<not> shouldDeleteOneMoreBackwards (initialState disabled hasInput keyDownListener popupChange val)"
    by (simp add: initialState_def)
  show "\<not> shouldDeleteOneMoreForwards (initialState disabled hasInput keyDownListener popupChange val)"
    by (simp add: initialState_def)
qed

text \<open>
  The theorem at three keydowns on the sample surface, all on an enabled field with no
  host listener: Backspace with the marker before the caret, Delete with the marker
  after it, and Backspace with the letter \<open>a\<close> before it.
\<close>

theorem delete_guard_sets_pending_flag_witness:
  "\<not> isDisabled (mounted ([8203], []) (initialState False True None False [])) \<and>
   getCharCodeThatWillBeDeleted caretSurface ''Backspace''
     (editor (mounted ([8203], []) (initialState False True None False []))) = Some markerCharCode \<and>
   shouldDeleteOneMoreBackwards
     (fst (handleKeyDown caretSurface
             (mounted ([8203], []) (initialState False True None False []))
             (keyDown ''Backspace''))) \<and>
   \<not> shouldDeleteOneMoreForwards
     (fst (handleKeyDown caretSurface
             (mounted ([8203], []) (initialState False True None False []))
             (keyDown ''Backspace''))) \<and>
   snd (handleKeyDown caretSurface
          (mounted ([8203], []) (initialState False True None False []))
          (keyDown ''Backspace'')) = keyDown ''Backspace'' \<and>
   getCharCodeThatWillBeDeleted caretSurface ''Delete''
     (editor (mounted ([], [8203]) (initialState False True None False []))) = Some markerCharCode \<and>
   shouldDeleteOneMoreForwards
     (fst (handleKeyDown caretSurface
             (mounted ([], [8203]) (initialState False True None False []))
             (keyDown ''Delete''))) \<and>
   \<not> shouldDeleteOneMoreBackwards
     (fst (handleKeyDown caretSurface
             (mounted ([], [8203]) (initialState False True None False []))
             (keyDown ''Delete''))) \<and>
   getCharCodeThatWillBeDeleted caretSurface ''Backspace''
     (editor (mounted ([97], []) (initialState False True None False []))) \<noteq> Some markerCharCode \<and>
   \<not> shouldDeleteOneMoreBackwards
     (fst (handleKeyDown caretSurface
             (mounted ([97], []) (initialState False True None False []))
             (keyDown ''Backspace''))) \<and>
   \<not> shouldDeleteOneMoreForwards
     (fst (handleKeyDown caretSurface
             (mounted ([97], []) (initialState False True None False []))
             (keyDown ''Backspace'')))"
  using delete_guard_sets_pending_flag
          [where s = "mounted ([8203], []) (initialState False True None False [])"
             and ev = "keyDown ''Backspace''" and E = caretSurface]
        delete_guard_sets_pending_flag
          [where s = "mounted ([], [8203]) (initialState False True None False [])"
             and ev = "keyDown ''Delete''" and E = caretSurface]
        delete_guard_sets_pending_flag
          [where s = "mounted ([97], []) (initialState False True None False [])"
             and ev = "keyDown ''Backspace''" and E = caretSurface]
  by (simp add: caretSurface_def mounted_def initialState_def keyDown_def markerCharCode_def
      callOnKeyDown_def)

text \<open>
  The claim as stated fails on a disabled field: Backspace with the marker before the
  caret sets no flag, and the native operation is prevented.
\<close>

theorem delete_guard_disabled_counterexample:
  "key (keyDown ''Backspace'') = ''Backspace'' \<and>
   getCharCodeThatWillBeDeleted caretSurface (key (keyDown ''Backspace''))
     (editor (mounted ([8203], []) (initialState True True None False []))) = Some markerCharCode \<and>
   \<not> shouldDeleteOneMoreBackwards
     (fst (handleKeyDown caretSurface
             (mounted ([8203], []) (initialState True True None False []))
             (keyDown ''Backspace''))) \<and>
   defaultPrevented
     (snd (handleKeyDown caretSurface
             (mounted ([8203], []) (initialState True True None False []))
             (keyDown ''Backspace'')))"
  by (simp add: handleKeyDown_def caretSurface_def mounted_def initialState_def keyDown_def
      markerCharCode_def preventDefault_def stopPropagation_def)

section \<open>The input handler and a pending delete\<close>

text \<open>
  Claim C2: an input notification comes from the editable element, so the element
  exists when the handler runs. If a pending flag is set, the handler clears both flags
  and performs exactly one removal, \<open>insertInvisibleCursorMarker\<close> when
  \<open>shouldDeleteOneMoreBackwards\<close> is set and the command \<open>forwardDelete\<close> when only
  \<open>shouldDeleteOneMoreForwards\<close> is; nothing else changes: the plain text is not
  derived again, the host's \<open>onInput\<close> listener is not called, and the event is
  suppressed. After every run of the handler both flags are false.
\<close>

theorem pending_delete_consumed_by_input:
  assumes "editor s = Some d"
  shows "(shouldDeleteOneMoreBackwards s \<longrightarrow>
            fst (handleInput E s ev) =
              s\<lparr>shouldDeleteOneMoreBackwards := False, shouldDeleteOneMoreForwards := False,
                editor := Some (insertInvisibleCursorMarker E d),
                trace := trace s @ [InsertInvisibleCursorMarker]\<rparr>) \<and>
         (\<not> shouldDeleteOneMoreBackwards s \<and> shouldDeleteOneMoreForwards s \<longrightarrow>
            fst (handleInput E s ev) =
              s\<lparr>shouldDeleteOneMoreBackwards := False, shouldDeleteOneMoreForwards := False,
                editor := Some (execCommand E ForwardDelete d),
                trace := trace s @ [ExecCommand ForwardDelete]\<rparr>) \<and>
         (shouldDeleteOneMoreBackwards s \<or> shouldDeleteOneMoreForwards s \<longrightarrow>
            plainTextValue (fst (handleInput E s ev)) = plainTextValue s \<and>
            onInputCalls (trace (fst (handleInput E s ev))) = onInputCalls (trace s) \<and>
            defaultPrevented (snd (handleInput E s ev)) \<and>
            propagationStopped (snd (handleInput E s ev))) \<and>
         \<not> shouldDeleteOneMoreBackwards (fst (handleInput E s ev)) \<and>
         \<not> shouldDeleteOneMoreForwards (fst (handleInput E s ev))"
proof (cases "shouldDeleteOneMoreBackwards s")
  case True
  then show ?thesis
    using handleInput_pending_event [OF assms, of E ev]
    by (simp add: handleInput_backward [OF assms])
next
  case nb: False
  show ?thesis
  proof (cases "shouldDeleteOneMoreForwards s")
    case True
    then show ?thesis
      using handleInput_pending_event [OF assms, of E ev] nb
      by (simp add: handleInput_forward [OF assms nb])
  next
    case False
    then show ?thesis
      using nb by (simp add: handleInput_plain [OF assms nb])
  qed
qed

text \<open>
  The theorem on the sample surface: an input event with the backward flag set, and one
  with the forward flag set and the letter \<open>b\<close> after the caret.
\<close>

theorem pending_delete_consumed_by_input_witness:
  "editor ((mounted ([97], []) (initialState False True None False []))
             \<lparr>shouldDeleteOneMoreBackwards := True\<rparr>) = Some ([97], []) \<and>
   shouldDeleteOneMoreBackwards
     ((mounted ([97], []) (initialState False True None False []))
        \<lparr>shouldDeleteOneMoreBackwards := True\<rparr>) \<and>
   \<not> shouldDeleteOneMoreBackwards
       ((mounted ([97], [98]) (initialState False True None False []))
          \<lparr>shouldDeleteOneMoreForwards := True\<rparr>) \<and>
   shouldDeleteOneMoreForwards
     ((mounted ([97], [98]) (initialState False True None False []))
        \<lparr>shouldDeleteOneMoreForwards := True\<rparr>) \<and>
   trace (fst (handleInput caretSurface
                 ((mounted ([97], []) (initialState False True None False []))
                    \<lparr>shouldDeleteOneMoreBackwards := True\<rparr>)
                 newInputEvent)) = [InsertInvisibleCursorMarker] \<and>
   \<not> shouldDeleteOneMoreBackwards
       (fst (handleInput caretSurface
               ((mounted ([97], []) (initialState False True None False []))
                  \<lparr>shouldDeleteOneMoreBackwards := True\<rparr>)
               newInputEvent)) \<and>
   trace (fst (handleInput caretSurface
                 ((mounted ([97], [98]) (initialState False True None False []))
                    \<lparr>shouldDeleteOneMoreForwards := True\<rparr>)
                 newInputEvent)) = [ExecCommand ForwardDelete] \<and>
   editor (fst (handleInput caretSurface
                  ((mounted ([97], [98]) (initialState False True None False []))
                     \<lparr>shouldDeleteOneMoreForwards := True\<rparr>)
                  newInputEvent)) = Some ([97], []) \<and>
   \<not> shouldDeleteOneMoreForwards
       (fst (handleInput caretSurface
               ((mounted ([97], [98]) (initialState False True None False []))
                  \<lparr>shouldDeleteOneMoreForwards := True\<rparr>)
               newInputEvent))"
  using pending_delete_consumed_by_input
          [where s = "(mounted ([97], []) (initialState False True None False []))
                        \<lparr>shouldDeleteOneMoreBackwards := True\<rparr>"
             and d = "([97], [])" and E = caretSurface and ev = newInputEvent]
        pending_delete_consumed_by_input
          [where s = "(mounted ([97], [98]) (initialState False True None False []))
                        \<lparr>shouldDeleteOneMoreForwards := True\<rparr>"
             and d = "([97], [98])" and E = caretSurface and ev = newInputEvent]
  by (simp add: caretSurface_def mounted_def initialState_def)

section \<open>The display sync\<close>

text \<open>
  Claim C3: \<open>handleUpdateHTML\<close> on an existing element with the text \<open>t\<close>. If the
  markup made from \<open>t\<close> equals the element's \<open>innerHTML\<close>, the state is returned as
  it is: the content and the selection are untouched and nothing is recorded. If it
  differs, the selection is saved first, then the content is replaced by the new
  markup, then the selection is restored, and nothing else changes.
\<close>

theorem display_sync_only_on_difference:
  assumes "editor s = Some d"
  shows "(convertTextToHTML E (convertEmojisToUnicode E t) = innerHTML E d \<longrightarrow>
            handleUpdateHTML E t s = s) \<and>
         (convertTextToHTML E (convertEmojisToUnicode E t) \<noteq> innerHTML E d \<longrightarrow>
            handleUpdateHTML E t s =
              s\<lparr>editor := Some (restoreSelection E
                                 (setInnerHTML E (convertTextToHTML E (convertEmojisToUnicode E t))
                                    (saveSelection E True d))),
                trace := trace s @
                         [SaveSelection True,
                          SetInnerHTML (convertTextToHTML E (convertEmojisToUnicode E t)),
                          RestoreSelection]\<rparr>)"
  using handleUpdateHTML_same [OF assms] handleUpdateHTML_differs [OF assms] by blast

text \<open>The theorem on the sample surface showing \<open>a\<close>: a sync with \<open>a\<close>, and one with \<open>b\<close>.\<close>

theorem display_sync_only_on_difference_witness:
  "editor (mounted ([97], []) (initialState False True None False [])) = Some ([97], []) \<and>
   convertTextToHTML caretSurface (convertEmojisToUnicode caretSurface [97]) =
     innerHTML caretSurface ([97], []) \<and>
   handleUpdateHTML caretSurface [97] (mounted ([97], []) (initialState False True None False [])) =
     mounted ([97], []) (initialState False True None False []) \<and>
   convertTextToHTML caretSurface (convertEmojisToUnicode caretSurface [98]) \<noteq>
     innerHTML caretSurface ([97], []) \<and>
   trace (handleUpdateHTML caretSurface [98]
            (mounted ([97], []) (initialState False True None False []))) =
     [SaveSelection True, SetInnerHTML [98], RestoreSelection] \<and>
   editor (handleUpdateHTML caretSurface [98]
             (mounted ([97], []) (initialState False True None False []))) = Some ([98], [])"
  using display_sync_only_on_difference
          [where s = "mounted ([97], []) (initialState False True None False [])"
             and d = "([97], [])" and E = caretSurface and t = "[97]"]
        display_sync_only_on_difference
          [where s = "mounted ([97], []) (initialState False True None False [])"
             and d = "([97], [])" and E = caretSurface and t = "[98]"]
  by (simp add: caretSurface_def mounted_def initialState_def)

section \<open>The disabled field\<close>

text \<open>
  On a disabled field the handlers of before-input, keydown, paste and drop suppress the
  event and return with the state untouched.
\<close>

lemma disabled_suppressed_and_returned:
  assumes "isDisabled s" "editor s = Some d"
  shows "handleBeforeInput E s bev = (s, stopPropagation (preventDefault bev))"
    and "handleKeyDown E s kev = (s, stopPropagation (preventDefault kev))"
    and "handlePaste E s pev = (s, stopPropagation (preventDefault pev))"
    and "handleDrop E s dev = (s, stopPropagation (preventDefault dev))"
  using assms
  by (simp_all add: handleBeforeInput_def handleKeyDown_def handlePaste_def handleDrop_def)

text \<open>
  Claim C4 has every editing event on a disabled field, the input event among them,
  suppressed before any conversion or mutation runs. \<open>handleInput\<close> does call
  \<open>stopPropagation()\<close> and \<open>preventDefault()\<close> when \<open>isDisabled\<close> holds, but
  unlike the four other handlers it does not return there. With no delete pending it
  goes on to the display sync, derives the plain text from the element again, stores it
  and calls the host's \<open>onInput\<close> listener with it.
\<close>

theorem disabled_input_still_notifies:
  assumes "isDisabled s" "editor s = Some d" "\<not> shouldDeleteOneMoreBackwards s"
          "\<not> shouldDeleteOneMoreForwards s" "hasOnInput s"
  shows "defaultPrevented (snd (handleInput E s ev)) \<and>
         propagationStopped (snd (handleInput E s ev)) \<and>
         plainTextValue (fst (handleInput E s ev)) =
           convertHTMLToText E (innerHTML E (updatedSurface E (innerHTML E d) d)) \<and>
         trace (fst (handleInput E s ev)) =
           trace s @ updateEffects E (innerHTML E d) d @
           [SetPlainTextValue (plainTextValue (fst (handleInput E s ev))),
            OnInput (plainTextValue (fst (handleInput E s ev)))]"
  using assms(1,5)
  by (simp add: handleInput_plain [OF assms(2,3,4)] handleInput_plain_event [OF assms(2,3,4)]
      preventDefault_def stopPropagation_def)

text \<open>
  On the sample surface: a disabled field whose plain text is empty while the element
  shows \<open>a\<close> receives an input event; the plain text becomes \<open>a\<close> and the host is
  notified.
\<close>

theorem disabled_input_still_notifies_witness:
  "isDisabled (mounted ([97], []) (initialState True True None False [])) \<and>
   editor (mounted ([97], []) (initialState True True None False [])) = Some ([97], []) \<and>
   \<not> shouldDeleteOneMoreBackwards (mounted ([97], []) (initialState True True None False [])) \<and>
   \<not> shouldDeleteOneMoreForwards (mounted ([97], []) (initialState True True None False [])) \<and>
   hasOnInput (mounted ([97], []) (initialState True True None False [])) \<and>
   plainTextValue (mounted ([97], []) (initialState True True None False [])) = [] \<and>
   plainTextValue (fst (handleInput caretSurface
                          (mounted ([97], []) (initialState True True None False []))
                          newInputEvent)) = [97] \<and>
   trace (fst (handleInput caretSurface
                 (mounted ([97], []) (initialState True True None False []))
                 newInputEvent)) = [SetPlainTextValue [97], OnInput [97]]"
  using disabled_input_still_notifies
          [where s = "mounted ([97], []) (initialState True True None False [])"
             and d = "([97], [])" and E = caretSurface and ev = newInputEvent]
  by (simp add: caretSurface_def mounted_def initialState_def updatedSurface_def
      updateEffects_def)

text \<open>
  Claim C5: a paste on a disabled field returns the state as it was. The plain text is
  unchanged, no input event is dispatched and \<open>onInput\<close> is not called, whether the
  element exists or not.
\<close>

theorem paste_on_disabled_field_changes_nothing:
  assumes "isDisabled s"
  shows "fst (handlePaste E s ev) = s \<and>
         plainTextValue (fst (handlePaste E s ev)) = plainTextValue s \<and>
         dispatches (trace (fst (handlePaste E s ev))) = dispatches (trace s) \<and>
         onInputCalls (trace (fst (handlePaste E s ev))) = onInputCalls (trace s)"
proof -
  have "fst (handlePaste E s ev) = s"
    using assms by (simp add: handlePaste_def split: option.split)
  then show ?thesis by simp
qed

theorem paste_on_disabled_field_changes_nothing_witness:
  "isDisabled (mounted ([97], []) (initialState True True None False [97])) \<and>
   fst (handlePaste caretSurface (mounted ([97], []) (initialState True True None False [97]))
          (pasteOf [98])) = mounted ([97], []) (initialState True True None False [97]) \<and>
   plainTextValue
     (fst (handlePaste caretSurface (mounted ([97], []) (initialState True True None False [97]))
             (pasteOf [98]))) = [97] \<and>
   trace
     (fst (handlePaste caretSurface (mounted ([97], []) (initialState True True None False [97]))
             (pasteOf [98]))) = []"
  using paste_on_disabled_field_changes_nothing
          [where s = "mounted ([97], []) (initialState True True None False [97])"
             and E = caretSurface and ev = "pasteOf [98]"]
  by (simp add: mounted_def initialState_def)

section \<open>Pasting\<close>




text \<open>
  Claim C9: on an enabled field, the markup inserted for a clipboard text that holds a
  newline is the escaped, emoji-converted text followed by one U+200C; for a text
  without a newline it is the escaped, emoji-converted text alone. The handler tests the
  converted text for the newline, so the statement needs the emoji conversion to keep
  a text with a newline one and a text without one so (the escaping does). The inserted
  markup thus ends in a U+200C that the clipboard did not hold.
\<close>

theorem paste_newline_appends_control_character:
  assumes "editor s = Some d" "\<not> isDisabled s"
      and "newline \<in> set (convertEmojisToUnicode E (clipboardText ev)) \<longleftrightarrow>
           newline \<in> set (clipboardText ev)"
  shows "insertedHTML (trace (fst (handlePaste E s ev))) =
           insertedHTML (trace s) @
           [if newline \<in> set (clipboardText ev)
            then escapeHTML (convertEmojisToUnicode E (clipboardText ev)) @ [zeroWidthNonJoiner]
            else escapeHTML (convertEmojisToUnicode E (clipboardText ev))]"
  using assms(3)
  by (simp add: handlePaste_enabled [OF assms(1,2)] dispatchInput_insertedHTML pastedMarkup_def
      newline_escapeHTML Let_def)

text \<open>
  The theorem on the sample surface: the text \<open>a\<close>, newline, \<open>b\<close> is pasted into an
  empty field, and the text \<open>ab\<close> is. In the first case the plain text derived
  afterwards ends in U+200C.
\<close>

theorem paste_newline_appends_control_character_witness:
  "editor (mounted ([], []) (initialState False True None False [])) = Some ([], []) \<and>
   \<not> isDisabled (mounted ([], []) (initialState False True None False [])) \<and>
   (newline \<in> set (convertEmojisToUnicode caretSurface (clipboardText (pasteOf [97, 10, 98]))) \<longleftrightarrow>
    newline \<in> set (clipboardText (pasteOf [97, 10, 98]))) \<and>
   newline \<in> set (clipboardText (pasteOf [97, 10, 98])) \<and>
   zeroWidthNonJoiner \<notin> set (clipboardText (pasteOf [97, 10, 98])) \<and>
   insertedHTML
     (trace (fst (handlePaste caretSurface (mounted ([], []) (initialState False True None False []))
                    (pasteOf [97, 10, 98])))) = [[97, 10, 98, 8204]] \<and>
   plainTextValue
     (fst (handlePaste caretSurface (mounted ([], []) (initialState False True None False []))
             (pasteOf [97, 10, 98]))) = [97, 10, 98, 8204] \<and>
   newline \<notin> set (clipboardText (pasteOf [97, 98])) \<and>
   insertedHTML
     (trace (fst (handlePaste caretSurface (mounted ([], []) (initialState False True None False []))
                    (pasteOf [97, 98])))) = [[97, 98]]"
  using paste_newline_appends_control_character
          [where s = "mounted ([], []) (initialState False True None False [])"
             and d = "([], [])" and E = caretSurface and ev = "pasteOf [97, 10, 98]"]
        paste_newline_appends_control_character
          [where s = "mounted ([], []) (initialState False True None False [])"
             and d = "([], [])" and E = caretSurface and ev = "pasteOf [97, 98]"]
  by (simp add: caretSurface_def mounted_def initialState_def pasteOf_def newline_def
      zeroWidthNonJoiner_def escapeHTML_def escapeUnit_def lessThanSign_def greaterThanSign_def
      handlePaste_def dispatchInput_def handleInput_def handleUpdateHTML_def emit_def
      newInputEvent_def preventDefault_def Let_def)

section \<open>One notification per edit\<close>





section \<open>The missing surface\<close>

text \<open>
  Claim C8: while \<open>editorRef.current\<close> is \<open>null\<close>, the display sync, the imperative
  \<open>insertTextAtCursorPosition\<close> and \<open>replaceText\<close>, the handlers of input and
  before-input and the insertion from the popup return the state, and the event, as
  they were given; none of them can fail.
\<close>

theorem missing_surface_is_noop:
  assumes "editor s = None"
  shows "handleUpdateHTML E html s = s \<and>
         handleInsertTextAtCursorPosition E t s = s \<and>
         handleReplaceText E searchText pasteText s = s \<and>
         handleInput E s ev = (s, ev) \<and>
         handleBeforeInput E s bev = (s, bev) \<and>
         handlePopupSelect E emoji s = s"
  using assms
  by (simp add: handleUpdateHTML_def handleInsertTextAtCursorPosition_def handleReplaceText_def
      handleInput_def handleBeforeInput_def handlePopupSelect_def)

text \<open>The theorem on the initial state, whose reference is not yet attached.\<close>

theorem missing_surface_is_noop_witness:
  "editor (initialState False True None False [97]) = None \<and>
   handleUpdateHTML caretSurface [98] (initialState False True None False [97]) =
     initialState False True None False [97] \<and>
   handleInsertTextAtCursorPosition caretSurface [98] (initialState False True None False [97]) =
     initialState False True None False [97] \<and>
   handleReplaceText caretSurface [97] [98] (initialState False True None False [97]) =
     initialState False True None False [97] \<and>
   handleInput caretSurface (initialState False True None False [97]) newInputEvent =
     (initialState False True None False [97], newInputEvent) \<and>
   handleBeforeInput caretSurface (initialState False True None False [97])
       (beforeInputOf ''textInput'' (Some [10])) =
     (initialState False True None False [97], beforeInputOf ''textInput'' (Some [10])) \<and>
   handlePopupSelect caretSurface [98] (initialState False True None False [97]) =
     initialState False True None False [97]"
  using missing_surface_is_noop
          [where s = "initialState False True None False [97]" and E = caretSurface
             and html = "[98]" and t = "[98]" and searchText = "[97]" and pasteText = "[98]"
             and ev = newInputEvent and bev = "beforeInputOf ''textInput'' (Some [10])"
             and emoji = "[98]"]
  by (simp add: initialState_def)

section \<open>The Enter key\<close>

text \<open>
  Claim C10, as stated, has Enter insert a line break whenever the popup is not visible
  and the host did not stop the propagation. The handler first checks \<open>isDisabled\<close>:
  on a disabled field Enter is suppressed and no line break is inserted. The statement
  below adds the enabled field to the second half of the claim.

  Claim C10 (amended): whenever the popup is visible, a keydown of Enter has its default
  prevented and the handler returns with the state as it was, so the host's
  \<open>onKeyDown\<close> listener is not called and no line break is inserted; the same holds
  on a disabled field. When the popup is not visible, the field is enabled, the element
  exists and the propagation is not stopped after the host's listener ran, the command
  \<open>insertLineBreak\<close> is executed once and the default is prevented.
\<close>

theorem enter_key_handling:
  "(key ev = ''Enter'' \<and> isPopupVisible s \<longrightarrow>
      fst (handleKeyDown E s ev) = s \<and> defaultPrevented (snd (handleKeyDown E s ev))) \<and>
   (key ev = ''Enter'' \<and> isDisabled s \<longrightarrow>
      fst (handleKeyDown E s ev) = s \<and> defaultPrevented (snd (handleKeyDown E s ev))) \<and>
   (key ev = ''Enter'' \<and> \<not> isPopupVisible s \<and> \<not> isDisabled s \<and> editor s = Some d \<and>
    \<not> propagationStopped (snd (callOnKeyDown s ev)) \<longrightarrow>
      fst (handleKeyDown E s ev) =
        (fst (callOnKeyDown s ev))
          \<lparr>editor := Some (execCommand E InsertLineBreak d),
           trace := trace (fst (callOnKeyDown s ev)) @ [ExecCommand InsertLineBreak]\<rparr> \<and>
      defaultPrevented (snd (handleKeyDown E s ev)))"
proof (intro conjI impI)
  assume a: "key ev = ''Enter'' \<and> isPopupVisible s"
  show "fst (handleKeyDown E s ev) = s"
    using a by (simp add: handleKeyDown_def)
  show "defaultPrevented (snd (handleKeyDown E s ev))"
    using a by (simp add: handleKeyDown_def preventDefault_def stopPropagation_def)
next
  assume a: "key ev = ''Enter'' \<and> isDisabled s"
  show "fst (handleKeyDown E s ev) = s"
    using a by (simp add: handleKeyDown_def)
  show "defaultPrevented (snd (handleKeyDown E s ev))"
    using a by (simp add: handleKeyDown_def preventDefault_def stopPropagation_def)
next
  assume a: "key ev = ''Enter'' \<and> \<not> isPopupVisible s \<and> \<not> isDisabled s \<and> editor s = Some d \<and>
    \<not> propagationStopped (snd (callOnKeyDown s ev))"
  have h: "handleKeyDown E s ev =
             enterLineBreak E (fst (callOnKeyDown s ev)) (snd (callOnKeyDown s ev))"
    using a by (simp add: handleKeyDown_enter)
  have l: "enterLineBreak E (fst (callOnKeyDown s ev)) (snd (callOnKeyDown s ev)) =
             ((fst (callOnKeyDown s ev))
                \<lparr>editor := Some (execCommand E InsertLineBreak d),
                 trace := trace (fst (callOnKeyDown s ev)) @ [ExecCommand InsertLineBreak]\<rparr>,
              preventDefault (snd (callOnKeyDown s ev)))"
    using a by (intro enterLineBreak_enter) simp_all
  show "fst (handleKeyDown E s ev) =
        (fst (callOnKeyDown s ev))
          \<lparr>editor := Some (execCommand E InsertLineBreak d),
           trace := trace (fst (callOnKeyDown s ev)) @ [ExecCommand InsertLineBreak]\<rparr>"
    by (simp add: h l)
  show "defaultPrevented (snd (handleKeyDown E s ev))"
    by (simp add: h l preventDefault_def)
qed

text \<open>
  The theorem on the sample surface showing \<open>a\<close>, with no host listener: Enter with the
  popup open, and Enter with the popup closed on an enabled field.
\<close>

theorem enter_key_handling_witness:
  "key (keyDown ''Enter'') = ''Enter'' \<and>
   isPopupVisible ((mounted ([97], []) (initialState False True None False [97]))
                     \<lparr>isPopupVisible := True\<rparr>) \<and>
   trace (fst (handleKeyDown caretSurface
                 ((mounted ([97], []) (initialState False True None False [97]))
                    \<lparr>isPopupVisible := True\<rparr>)
                 (keyDown ''Enter''))) = [] \<and>
   defaultPrevented (snd (handleKeyDown caretSurface
                            ((mounted ([97], []) (initialState False True None False [97]))
                               \<lparr>isPopupVisible := True\<rparr>)
                            (keyDown ''Enter''))) \<and>
   \<not> isPopupVisible (mounted ([97], []) (initialState False True None False [97])) \<and>
   \<not> isDisabled (mounted ([97], []) (initialState False True None False [97])) \<and>
   \<not> propagationStopped
       (snd (callOnKeyDown (mounted ([97], []) (initialState False True None False [97]))
               (keyDown ''Enter''))) \<and>
   trace (fst (handleKeyDown caretSurface
                 (mounted ([97], []) (initialState False True None False [97]))
                 (keyDown ''Enter''))) = [ExecCommand InsertLineBreak] \<and>
   editor (fst (handleKeyDown caretSurface
                  (mounted ([97], []) (initialState False True None False [97]))
                  (keyDown ''Enter''))) = Some ([97, 10], []) \<and>
   defaultPrevented (snd (handleKeyDown caretSurface
                            (mounted ([97], []) (initialState False True None False [97]))
                            (keyDown ''Enter'')))"
  using enter_key_handling
          [where s = "(mounted ([97], []) (initialState False True None False [97]))
                        \<lparr>isPopupVisible := True\<rparr>"
             and ev = "keyDown ''Enter''" and E = caretSurface and d = "([97], [])"]
        enter_key_handling
          [where s = "mounted ([97], []) (initialState False True None False [97])"
             and ev = "keyDown ''Enter''" and E = caretSurface and d = "([97], [])"]
  by (simp add: caretSurface_def mounted_def initialState_def keyDown_def callOnKeyDown_def
      newline_def)

text \<open>
  The claim as stated fails on a disabled field: the popup is closed, there is no host
  listener and the propagation is not stopped, yet Enter inserts no line break; the
  element and the trace are as before.
\<close>

theorem enter_key_disabled_counterexample:
  "key (keyDown ''Enter'') = ''Enter'' \<and>
   \<not> isPopupVisible (mounted ([97], []) (initialState True True None False [97])) \<and>
   \<not> propagationStopped
       (snd (callOnKeyDown (mounted ([97], []) (initialState True True None False [97]))
               (keyDown ''Enter''))) \<and>
   trace (fst (handleKeyDown caretSurface
                 (mounted ([97], []) (initialState True True None False [97]))
                 (keyDown ''Enter''))) = [] \<and>
   editor (fst (handleKeyDown caretSurface
                  (mounted ([97], []) (initialState True True None False [97]))
                  (keyDown ''Enter''))) = Some ([97], [])"
  by (simp add: handleKeyDown_def callOnKeyDown_def mounted_def initialState_def keyDown_def)

end
